theory Spec2Isabelle
  imports Main
begin

section \<open>The Supabase realtime hook (src/hooks/use-supabase-websocket.ts)\<close>

subsection \<open>Data\<close>

text \<open>\<^verbatim>\<open>SupabaseWebSocketStatus\<close>, the value held by the React state \<^verbatim>\<open>status\<close>.\<close>

datatype SupabaseWebSocketStatus = Connecting | Connected | Disconnected | Error

text \<open>The status string the client library hands to the callback given to \<^verbatim>\<open>subscribe\<close>.\<close>

datatype subscribe_status = SUBSCRIBED | CHANNEL_ERROR | TIMED_OUT | CLOSED

text \<open>A thrown or reported JavaScript \<^verbatim>\<open>Error\<close>, identified by its message.\<close>

datatype js_error = JsError string

text \<open>
  The values a \<^verbatim>\<open>connect\<close> closure captures: the dependency list
  \<^verbatim>\<open>[enabled, channelName, table, filter]\<close> of its \<^verbatim>\<open>useCallback\<close>.
\<close>

record descriptor =
  channelName :: string
  table :: string
  filter_d :: "string option"
  enabled :: bool

text \<open>
  A consumer callback runs on the consumer's own state \<open>'w\<close>. It returns that state as it
  left it, together with the exception it threw, if any.
\<close>

type_synonym ('a, 'w) callback = "'a \<Rightarrow> 'w \<Rightarrow> js_error option \<times> 'w"

text \<open>The content of \<^verbatim>\<open>callbacksRef.current\<close>; every handler is optional.\<close>

record ('p, 'w) callbacks =
  onInsert :: "('p, 'w) callback option"
  onUpdate :: "('p, 'w) callback option"
  onDelete :: "('p, 'w) callback option"
  onError :: "(js_error, 'w) callback option"

text \<open>The calls the hook makes on the Supabase client, in the order made.\<close>

datatype backend_op = Subscribe nat descriptor | RemoveChannel nat

text \<open>
  The state of one hook instance: the two React state cells, the three mutable refs, and
  the part of the runtime the hook acts on: the channels registered with the Supabase
  client, the pending \<^verbatim>\<open>setTimeout\<close> tasks (identifier, delay in milliseconds, and the
  descriptor captured by the \<^verbatim>\<open>connect\<close> closure the task will call), the log of
  client calls and the console.
\<close>

record hook_state =
  status :: SupabaseWebSocketStatus
  channel :: "nat option"
  reconnectTimeoutRef :: "nat option"
  reconnectAttemptsRef :: nat
  channelRef :: "nat option"
  channels :: "nat list"
  next_channel :: nat
  timeouts :: "(nat \<times> nat \<times> descriptor) list"
  next_timeout :: nat
  ops :: "backend_op list"
  console :: "js_error list"

definition maxReconnectAttempts :: nat where
  "maxReconnectAttempts = 10"

definition reconnectInterval :: nat where
  "reconnectInterval = 3000"

text \<open>The state after the first render, before any effect has run. Timer identifiers are
  positive, hence truthy in the test \<^verbatim>\<open>if (reconnectTimeoutRef.current)\<close>.\<close>

definition initial :: hook_state where
  "initial = \<lparr>status = Disconnected, channel = None, reconnectTimeoutRef = None,
     reconnectAttemptsRef = 0, channelRef = None, channels = [], next_channel = 0,
     timeouts = [], next_timeout = 1, ops = [], console = []\<rparr>"

subsection \<open>Runtime primitives\<close>

text \<open>\<^verbatim>\<open>f?.(a)\<close>: call the callback when it is defined.\<close>

definition call_opt :: "('a, 'w) callback option \<Rightarrow> 'a \<Rightarrow> 'w \<Rightarrow> js_error option \<times> 'w" where
  "call_opt f a w = (case f of None \<Rightarrow> (None, w) | Some g \<Rightarrow> g a w)"

text \<open>\<^verbatim>\<open>setTimeout(() => connect(), ms)\<close> for the \<^verbatim>\<open>connect\<close> closure of descriptor \<open>d\<close>.\<close>

definition setTimeout :: "descriptor \<Rightarrow> nat \<Rightarrow> hook_state \<Rightarrow> nat \<times> hook_state" where
  "setTimeout d ms s =
     (next_timeout s,
      s\<lparr>timeouts := timeouts s @ [(next_timeout s, ms, d)],
        next_timeout := Suc (next_timeout s)\<rparr>)"

text \<open>\<^verbatim>\<open>clearTimeout(t)\<close>: drops the task when it is still pending, else does nothing.\<close>

definition clearTimeout :: "nat \<Rightarrow> hook_state \<Rightarrow> hook_state" where
  "clearTimeout t s = s\<lparr>timeouts := filter (\<lambda>x. fst x \<noteq> t) (timeouts s)\<rparr>"

text \<open>
  \<^verbatim>\<open>supabase.removeChannel(h)\<close>. The client releases the channel; the promise it
  returns is discarded by the hook, so the call itself returns normally.
\<close>

definition removeChannel :: "nat \<Rightarrow> hook_state \<Rightarrow> hook_state" where
  "removeChannel h s = s\<lparr>channels := removeAll h (channels s), ops := ops s @ [RemoveChannel h]\<rparr>"

text \<open>\<^verbatim>\<open>err?.message || "Channel error"\<close>\<close>

definition error_message :: "js_error option \<Rightarrow> string" where
  "error_message err =
     (case err of None \<Rightarrow> ''Channel error''
      | Some (JsError m) \<Rightarrow> if m = [] then ''Channel error'' else m)"

subsection \<open>The hook's operations\<close>

text \<open>Lines 67-71 and 153-157: release the channel held in \<^verbatim>\<open>channelRef\<close>, if any.\<close>

definition release_channel :: "hook_state \<Rightarrow> hook_state" where
  "release_channel s =
     (case channelRef s of
        None \<Rightarrow> s
      | Some h \<Rightarrow> (removeChannel h s)\<lparr>channelRef := None, channel := None\<rparr>)"

text \<open>
  \<^verbatim>\<open>connect\<close> (lines 60-146). \<open>thrown\<close> is what the client does when asked to build and
  subscribe the channel inside the \<^verbatim>\<open>try\<close>: \<open>None\<close> when the chain
  \<^verbatim>\<open>channel(...).on(...).on(...).on(...).subscribe(...)\<close> returns the new channel,
  \<open>Some e\<close> when it throws \<open>e\<close> (nothing is registered then). The first component of the
  result is the exception that leaves \<^verbatim>\<open>connect\<close>, if any.
\<close>

definition connect ::
  "descriptor \<Rightarrow> ('p, 'w) callbacks \<Rightarrow> js_error option \<Rightarrow> hook_state \<times> 'w
     \<Rightarrow> js_error option \<times> hook_state \<times> 'w" where
  "connect d cb thrown sw =
     (let (s, w) = sw in
      if \<not> enabled d then (None, s\<lparr>status := Disconnected\<rparr>, w)
      else
        let s1 = release_channel s;
            s2 = s1\<lparr>status := Connecting\<rparr>
        in case thrown of
             None \<Rightarrow>
               let h = next_channel s2;
                   s3 = s2\<lparr>channels := channels s2 @ [h], next_channel := Suc h,
                          ops := ops s2 @ [Subscribe h d]\<rparr>
               in (None, s3\<lparr>channelRef := Some h, channel := Some h\<rparr>, w)
           | Some e \<Rightarrow>
               let s3 = s2\<lparr>status := Error\<rparr> in
               (case call_opt (onError cb) e w of
                  (Some x, w') \<Rightarrow> (Some x, s3, w')
                | (None, w') \<Rightarrow> (None, s3\<lparr>console := console s3 @ [e]\<rparr>, w')))"

text \<open>
  The callback given to \<^verbatim>\<open>subscribe\<close> (lines 120-137) by the \<^verbatim>\<open>connect\<close> closure of
  descriptor \<open>d\<close>. The retry it arms calls that same closure.
\<close>

definition subscribe_callback ::
  "descriptor \<Rightarrow> ('p, 'w) callbacks \<Rightarrow> subscribe_status \<Rightarrow> js_error option \<Rightarrow> hook_state \<times> 'w
     \<Rightarrow> js_error option \<times> hook_state \<times> 'w" where
  "subscribe_callback d cb st err sw =
     (let (s, w) = sw in
      if st = SUBSCRIBED then (None, s\<lparr>status := Connected, reconnectAttemptsRef := 0\<rparr>, w)
      else if st = CHANNEL_ERROR \<or> st = TIMED_OUT then
        let s1 = s\<lparr>status := Error\<rparr> in
        (case call_opt (onError cb) (JsError (error_message err)) w of
           (Some x, w') \<Rightarrow> (Some x, s1, w')
         | (None, w') \<Rightarrow>
             if reconnectAttemptsRef s1 < maxReconnectAttempts then
               let s2 = s1\<lparr>reconnectAttemptsRef := reconnectAttemptsRef s1 + 1\<rparr>;
                   (t, s3) = setTimeout d reconnectInterval s2
               in (None, s3\<lparr>reconnectTimeoutRef := Some t\<rparr>, w')
             else (None, s1, w'))
      else if st = CLOSED then (None, s\<lparr>status := Disconnected\<rparr>, w)
      else (None, s, w))"

text \<open>\<^verbatim>\<open>disconnect\<close> (lines 148-159).\<close>

definition disconnect :: "hook_state \<Rightarrow> hook_state" where
  "disconnect s =
     (let s1 = (case reconnectTimeoutRef s of
                  None \<Rightarrow> s
                | Some t \<Rightarrow> (clearTimeout t s)\<lparr>reconnectTimeoutRef := None\<rparr>);
          s2 = release_channel s1
      in s2\<lparr>status := Disconnected\<rparr>)"

text \<open>\<^verbatim>\<open>reconnect\<close> (lines 161-167); \<open>d\<close> is the descriptor of the \<^verbatim>\<open>connect\<close> closure
  the current render holds.\<close>

definition reconnect :: "descriptor \<Rightarrow> hook_state \<Rightarrow> hook_state" where
  "reconnect d s =
     (let s1 = disconnect s;
          s2 = s1\<lparr>reconnectAttemptsRef := 0\<rparr>
      in snd (setTimeout d 100 s2))"

text \<open>
  The timer with identifier \<open>t\<close> comes due: the runtime drops the task and calls its
  \<^verbatim>\<open>connect\<close> closure. Nothing happens when no such task is pending.
\<close>

definition fire_timeout ::
  "nat \<Rightarrow> ('p, 'w) callbacks \<Rightarrow> js_error option \<Rightarrow> hook_state \<times> 'w
     \<Rightarrow> js_error option \<times> hook_state \<times> 'w" where
  "fire_timeout t cb thrown sw =
     (let (s, w) = sw in
      case find (\<lambda>x. fst x = t) (timeouts s) of
        None \<Rightarrow> (None, s, w)
      | Some (_, _, d) \<Rightarrow>
          connect d cb thrown (s\<lparr>timeouts := filter (\<lambda>x. fst x \<noteq> t) (timeouts s)\<rparr>, w))"

subsection \<open>Delivery of change events\<close>

datatype event_kind = INSERT | UPDATE | DELETE

text \<open>
  The three \<^verbatim>\<open>.on("postgres_changes", {event: ...}, (payload) => ...)\<close> registrations of
  lines 84-119, in the order made. Each listener reads \<^verbatim>\<open>callbacksRef.current\<close> when it
  runs, so \<open>cb\<close> is the content of the ref at the time of the event.
\<close>

definition bindings :: "('p, 'w) callbacks \<Rightarrow> (event_kind \<times> ('p, 'w) callback) list" where
  "bindings cb =
     [(INSERT, \<lambda>payload. call_opt (onInsert cb) payload),
      (UPDATE, \<lambda>payload. call_opt (onUpdate cb) payload),
      (DELETE, \<lambda>payload. call_opt (onDelete cb) payload)]"

text \<open>
  The client library hands a change event to the listeners registered for its kind, in
  registration order; an exception thrown by a listener leaves the call.
\<close>

fun trigger ::
  "(event_kind \<times> ('p, 'w) callback) list \<Rightarrow> event_kind \<Rightarrow> 'p \<Rightarrow> 'w \<Rightarrow> js_error option \<times> 'w" where
  "trigger [] k p w = (None, w)"
| "trigger ((k', f) # bs) k p w =
     (if k' = k then
        (case f p w of
           (Some x, w') \<Rightarrow> (Some x, w')
         | (None, w') \<Rightarrow> trigger bs k p w')
      else trigger bs k p w)"

text \<open>One change event arriving at the channel the hook built.\<close>

definition dispatch :: "('p, 'w) callbacks \<Rightarrow> event_kind \<Rightarrow> 'p \<Rightarrow> 'w \<Rightarrow> js_error option \<times> 'w" where
  "dispatch cb k p w = trigger (bindings cb) k p w"

text \<open>
  A sequence of change events, each arriving in a call of its own. The first component
  collects the exceptions that left a listener and so reached the client library. What the
  library does with them is outside the repository; it is taken to go on delivering.
\<close>

fun deliver :: "('p, 'w) callbacks \<Rightarrow> (event_kind \<times> 'p) list \<Rightarrow> 'w \<Rightarrow> js_error list \<times> 'w" where
  "deliver cb [] w = ([], w)"
| "deliver cb ((k, p) # es) w =
     (case dispatch cb k p w of
        (x, w') \<Rightarrow>
          (case deliver cb es w' of
             (xs, w'') \<Rightarrow> ((case x of None \<Rightarrow> xs | Some e \<Rightarrow> e # xs), w'')))"

text \<open>The handler the specification assigns to an event kind.\<close>

fun matching_handler :: "('p, 'w) callbacks \<Rightarrow> event_kind \<Rightarrow> ('p, 'w) callback option" where
  "matching_handler cb INSERT = onInsert cb"
| "matching_handler cb UPDATE = onUpdate cb"
| "matching_handler cb DELETE = onDelete cb"

subsection \<open>The effect and the life of a hook instance\<close>

text \<open>The body of the effect of lines 169-175, run under descriptor \<open>d\<close>.\<close>

definition effect ::
  "descriptor \<Rightarrow> ('p, 'w) callbacks \<Rightarrow> js_error option \<Rightarrow> hook_state \<times> 'w
     \<Rightarrow> js_error option \<times> hook_state \<times> 'w" where
  "effect d cb thrown sw =
     (if enabled d then connect d cb thrown sw
      else (None, disconnect (fst sw), snd sw))"

text \<open>The cleanup the effect returns (lines 176-178).\<close>

definition cleanup :: "hook_state \<Rightarrow> hook_state" where
  "cleanup s = disconnect s"

text \<open>
  A render in which one of \<^verbatim>\<open>[enabled, channelName, table, filter]\<close> differs from the
  previous render: React runs the cleanup of the previous effect, then the effect under the
  new descriptor.
\<close>

definition rerender ::
  "descriptor \<Rightarrow> ('p, 'w) callbacks \<Rightarrow> js_error option \<Rightarrow> hook_state \<times> 'w
     \<Rightarrow> js_error option \<times> hook_state \<times> 'w" where
  "rerender d cb thrown sw = effect d cb thrown (cleanup (fst sw), snd sw)"

text \<open>
  What can happen to a mounted hook: the first effect, a render with changed dependencies,
  the unmount, a status reported to the subscribe callback created by the \<^verbatim>\<open>connect\<close>
  closure of a descriptor, a timer coming due, the consumer calling \<^verbatim>\<open>reconnect\<close> or
  \<^verbatim>\<open>disconnect\<close>, and a change event. Where the client may be asked to build a channel, the
  action says whether that attempt throws.
\<close>

datatype 'p action =
    Mount descriptor "js_error option"
  | Render descriptor "js_error option"
  | Unmount
  | Status descriptor subscribe_status "js_error option"
  | Timeout nat "js_error option"
  | Reconnect descriptor
  | Disconnect
  | Change event_kind 'p

fun step ::
  "('p, 'w) callbacks \<Rightarrow> 'p action \<Rightarrow> hook_state \<times> 'w \<Rightarrow> js_error option \<times> hook_state \<times> 'w" where
  "step cb (Mount d thrown) sw = effect d cb thrown sw"
| "step cb (Render d thrown) sw = rerender d cb thrown sw"
| "step cb Unmount sw = (None, cleanup (fst sw), snd sw)"
| "step cb (Status d st err) sw = subscribe_callback d cb st err sw"
| "step cb (Timeout t thrown) sw = fire_timeout t cb thrown sw"
| "step cb (Reconnect d) sw = (None, reconnect d (fst sw), snd sw)"
| "step cb Disconnect sw = (None, disconnect (fst sw), snd sw)"
| "step cb (Change k p) sw =
     (case dispatch cb k p (snd sw) of (x, w') \<Rightarrow> (x, fst sw, w'))"

text \<open>
  A run: the actions one after the other. An exception that leaves a step has gone to the
  caller of that step (React, the timer queue or the client library); the state stays as
  the step left it.
\<close>

fun run :: "('p, 'w) callbacks \<Rightarrow> 'p action list \<Rightarrow> hook_state \<times> 'w \<Rightarrow> hook_state \<times> 'w" where
  "run cb [] sw = sw"
| "run cb (a # as) sw = run cb as (snd (step cb a sw))"

subsection \<open>Consumers used in examples\<close>

text \<open>A consumer whose state is the list of handler calls it has received.\<close>

datatype 'p call = Insert_call 'p | Update_call 'p | Delete_call 'p | Error_call js_error

definition recording :: "('p, 'p call list) callbacks" where
  "recording =
     \<lparr>onInsert = Some (\<lambda>p w. (None, w @ [Insert_call p])),
      onUpdate = Some (\<lambda>p w. (None, w @ [Update_call p])),
      onDelete = Some (\<lambda>p w. (None, w @ [Delete_call p])),
      onError = Some (\<lambda>e w. (None, w @ [Error_call e]))\<rparr>"

text \<open>The same consumer with an \<^verbatim>\<open>onUpdate\<close> that throws.\<close>

definition update_throws :: "('p, 'p call list) callbacks" where
  "update_throws = recording\<lparr>onUpdate := Some (\<lambda>p w. (Some (JsError ''handler failed''), w))\<rparr>"

text \<open>The same consumer with an \<^verbatim>\<open>onError\<close> that records the call and then throws.\<close>

definition error_throws :: "('p, 'p call list) callbacks" where
  "error_throws =
     recording\<lparr>onError := Some (\<lambda>e w. (Some (JsError ''onError failed''), w @ [Error_call e]))\<rparr>"

text \<open>The descriptor of the scenario in the specification.\<close>

definition requests :: descriptor where
  "requests = \<lparr>channelName = ''requests-42'', table = ''requests'',
     filter_d = Some ''owner=42'', enabled = True\<rparr>"

subsection \<open>Observations used to state the properties\<close>

text \<open>The handler call the specification expects for a change event.\<close>

fun expected_call :: "event_kind \<Rightarrow> 'p \<Rightarrow> 'p call" where
  "expected_call INSERT p = Insert_call p"
| "expected_call UPDATE p = Update_call p"
| "expected_call DELETE p = Delete_call p"









section \<open>The plain WebSocket hook (src/hooks/use-websocket.ts)\<close>

subsection \<open>Data\<close>

text \<open>\<^verbatim>\<open>WebSocketStatus\<close> has the four values of the Supabase hook's status.\<close>

type_synonym WebSocketStatus = SupabaseWebSocketStatus

text \<open>\<^verbatim>\<open>WebSocket.readyState\<close>\<close>

datatype readyState = CONNECTING | OPEN | CLOSING | CLOSED_socket

text \<open>
  What a \<^verbatim>\<open>connect\<close> closure of this hook captures: the options of the render that
  made it. Messages have type \<open>'m\<close>; the other browser events carry nothing the hook reads.
\<close>

record ('m, 'w) ws_options =
  url :: string
  onMessage :: "('m, 'w) callback option"
  onOpen :: "(unit, 'w) callback option"
  onClose :: "(unit, 'w) callback option"
  ws_onError :: "(unit, 'w) callback option"
  ws_reconnectInterval :: nat
  ws_maxReconnectAttempts :: nat
  protocols :: "string list option"

text \<open>
  The state of one instance: the React state cells, the refs, and the part of the browser
  the hook acts on: the sockets it has created with their \<^verbatim>\<open>readyState\<close>, the pending
  \<^verbatim>\<open>setTimeout\<close> tasks and the console.
\<close>

record ('m, 'w) ws_state =
  ws_status :: WebSocketStatus
  lastMessage :: "'m option"
  wsRef :: "nat option"
  ws_reconnectTimeoutRef :: "nat option"
  ws_reconnectAttemptsRef :: nat
  shouldReconnectRef :: bool
  isManualCloseRef :: bool
  sockets :: "nat \<Rightarrow> readyState option"
  next_socket :: nat
  ws_timeouts :: "(nat \<times> nat \<times> ('m, 'w) ws_options) list"
  ws_next_timeout :: nat
  ws_console :: "js_error list"


subsection \<open>Operations\<close>







text \<open>\<^verbatim>\<open>socket.close()\<close>: a socket not yet closed starts closing.\<close>

definition close_socket :: "nat \<Rightarrow> ('m, 'w) ws_state \<Rightarrow> ('m, 'w) ws_state" where
  "close_socket h s =
     (if sockets s h = Some CLOSED_socket then s
      else s\<lparr>sockets := (sockets s)(h \<mapsto> CLOSING)\<rparr>)"

text \<open>\<^verbatim>\<open>disconnect\<close> (lines 102-114).\<close>

definition ws_disconnect :: "('m, 'w) ws_state \<Rightarrow> ('m, 'w) ws_state" where
  "ws_disconnect s =
     (let s1 = s\<lparr>isManualCloseRef := True, shouldReconnectRef := False\<rparr>;
          s2 = (case ws_reconnectTimeoutRef s1 of
                  None \<Rightarrow> s1
                | Some t \<Rightarrow> s1\<lparr>ws_timeouts := filter (\<lambda>x. fst x \<noteq> t) (ws_timeouts s1),
                               ws_reconnectTimeoutRef := None\<rparr>);
          s3 = (case wsRef s2 of
                  None \<Rightarrow> s2
                | Some h \<Rightarrow> (close_socket h s2)\<lparr>wsRef := None\<rparr>)
      in s3\<lparr>ws_status := Disconnected\<rparr>)"

text \<open>\<^verbatim>\<open>reconnect\<close> (lines 116-124).\<close>

definition ws_reconnect :: "('m, 'w) ws_options \<Rightarrow> ('m, 'w) ws_state \<Rightarrow> ('m, 'w) ws_state" where
  "ws_reconnect opts s =
     (let s1 = s\<lparr>isManualCloseRef := False, shouldReconnectRef := True,
                 ws_reconnectAttemptsRef := 0\<rparr>;
          s2 = ws_disconnect s1;
          t = ws_next_timeout s2
      in s2\<lparr>ws_timeouts := ws_timeouts s2 @ [(t, 100, opts)], ws_next_timeout := Suc t\<rparr>)"






section \<open>Properties\<close>

subsection \<open>The example states\<close>





subsection \<open>Change events reach the handler of their kind\<close>

lemma dispatch_matching: "dispatch cb k p w = call_opt (matching_handler cb k) p w"
  by (cases k) (auto simp: dispatch_def bindings_def split: prod.splits option.splits)

lemma deliver_fold:
  "snd (deliver cb es w) = fold (\<lambda>(k, p) w. snd (call_opt (matching_handler cb k) p w)) es w"
proof (induction es arbitrary: w)
  case Nil
  show ?case by simp
next
  case (Cons e es)
  obtain k p where e: "e = (k, p)" by (cases e)
  obtain x w' where d: "dispatch cb k p w = (x, w')" by (cases "dispatch cb k p w")
  then have w': "w' = snd (call_opt (matching_handler cb k) p w)"
    by (simp add: dispatch_matching)
  have "snd (deliver cb (e # es) w) = snd (deliver cb es w')"
    using e d by (simp split: prod.splits)
  then show ?case using Cons.IH[of w'] e w' by simp
qed

lemma deliver_append:
  "deliver cb (es @ es') w =
     (case deliver cb es w of (xs, w1) \<Rightarrow>
        case deliver cb es' w1 of (ys, w2) \<Rightarrow> (xs @ ys, w2))"
  by (induction es arbitrary: w) (auto split: prod.splits option.splits)

lemma deliver_recording:
  "deliver recording es w = ([], w @ map (\<lambda>(k, p). expected_call k p) es)"
proof (induction es arbitrary: w)
  case Nil
  show ?case by simp
next
  case (Cons e es)
  obtain k p where e: "e = (k, p)" by (cases e)
  have "dispatch recording k p w = (None, w @ [expected_call k p])"
    by (cases k) (simp_all add: dispatch_matching recording_def call_opt_def)
  then show ?case using Cons.IH e by simp
qed

text \<open>
  C7. A change event is handed to exactly the handler of its kind (\<open>INSERT\<close> to
  \<^verbatim>\<open>onInsert\<close>, \<open>UPDATE\<close> to \<^verbatim>\<open>onUpdate\<close>, \<open>DELETE\<close> to \<^verbatim>\<open>onDelete\<close>) inside
  the call that delivers it, and a sequence of events runs the matching handlers one after
  the other in the order of arrival: the consumer's state after the sequence is the fold of
  the matching handlers over it, and a consumer that records its calls has recorded exactly
  the expected call of each event, in order, with none buffered, dropped or moved.
\<close>

theorem events_dispatched_by_kind_in_order:
  "dispatch cb k p w = call_opt (matching_handler cb k) p w
   \<and> snd (deliver cb es w) = fold (\<lambda>(k, p) w. snd (call_opt (matching_handler cb k) p w)) es w
   \<and> deliver recording es' w' = ([], w' @ map (\<lambda>(k, p). expected_call k p) es')"
  by (intro conjI dispatch_matching deliver_fold deliver_recording)

text \<open>
  C1, as amended. The hook has no \<^verbatim>\<open>try\<close> around a handler call. The exception a
  handler throws leaves the listener and reaches the client library that delivered the
  event; \<^verbatim>\<open>onError\<close> plays no part in the delivery of a change event (replacing it
  changes nothing). The hook's own state is not touched by a change event, and the events
  the library delivers afterwards are dispatched from the state the earlier ones left.
\<close>

theorem handler_exception_escapes:
  "dispatch (cb\<lparr>onError := f\<rparr>) k p w = dispatch cb k p w
   \<and> (call_opt (matching_handler cb k) p w = (Some x, w')
        \<longrightarrow> step cb (Change k p) (s, w) = (Some x, s, w'))
   \<and> fst (snd (step cb (Change k p) (s, w))) = s
   \<and> deliver cb (es @ es') w =
       (case deliver cb es w of (xs, w1) \<Rightarrow>
          case deliver cb es' w1 of (ys, w2) \<Rightarrow> (xs @ ys, w2))"
proof -
  have "matching_handler (cb\<lparr>onError := f\<rparr>) k = matching_handler cb k"
    by (cases k) simp_all
  then have a: "dispatch (cb\<lparr>onError := f\<rparr>) k p w = dispatch cb k p w"
    by (simp add: dispatch_matching)
  have b: "call_opt (matching_handler cb k) p w = (Some x, w')
        \<longrightarrow> step cb (Change k p) (s, w) = (Some x, s, w')"
    by (simp add: dispatch_matching)
  have c: "fst (snd (step cb (Change k p) (s, w))) = s"
    by (simp split: prod.splits)
  show ?thesis by (intro conjI a b c deliver_append)
qed

theorem handler_exception_escapes_witness:
  "call_opt (matching_handler update_throws UPDATE) (2::nat) [] = (Some (JsError ''handler failed''), [])
   \<and> step update_throws (Change UPDATE (2::nat)) (initial, []) = (Some (JsError ''handler failed''), initial, [])"
  using handler_exception_escapes [where cb = update_throws and k = UPDATE and p = "2::nat"
      and w = "[]" and x = "JsError ''handler failed''" and w' = "[]" and s = initial]
  by (simp add: update_throws_def recording_def call_opt_def)

text \<open>
  C1 as stated fails. With an \<^verbatim>\<open>onUpdate\<close> that throws and an \<^verbatim>\<open>onError\<close> that records
  its calls, the events E1 (insert), E2 (update), E3 (delete) leave the exception of E2 with
  the client library and no call of \<^verbatim>\<open>onError\<close> on record.
\<close>

theorem handler_exception_not_caught:
  "deliver update_throws [(INSERT, 1::nat), (UPDATE, 2), (DELETE, 3)] []
     = ([JsError ''handler failed''], [Insert_call 1, Delete_call 3])
   \<and> step update_throws (Change UPDATE (2::nat)) (initial, [])
     = (Some (JsError ''handler failed''), initial, [])"
  by (simp add: dispatch_matching update_throws_def recording_def call_opt_def)

subsection \<open>One handle at a time\<close>











subsection \<open>The retry budget\<close>












subsection \<open>Exceptions leaving the hook\<close>

text \<open>
  C8, as amended. An exception leaves \<^verbatim>\<open>connect\<close> only when building the channel threw
  and the \<^verbatim>\<open>onError\<close> callback, called in the \<^verbatim>\<open>catch\<close>, threw in turn; it is then the
  exception of \<^verbatim>\<open>onError\<close>. When \<^verbatim>\<open>onError\<close> is absent or returns normally, a failure to
  build the channel ends with status \<open>Error\<close>, \<^verbatim>\<open>onError\<close> called with the exception and
  the exception on the console. \<^verbatim>\<open>disconnect\<close>, \<^verbatim>\<open>reconnect\<close> and the cleanup call no
  consumer code and raise nothing.
\<close>

theorem connect_throws_only_from_onError:
  "(fst (connect d cb thrown (s, w)) \<noteq> None
      \<longrightarrow> enabled d \<and> (\<exists>e. thrown = Some e
            \<and> fst (call_opt (onError cb) e w) = fst (connect d cb thrown (s, w))))
   \<and> (enabled d \<and> fst (call_opt (onError cb) e' w) = None
      \<longrightarrow> connect d cb (Some e') (s, w)
          = (None,
             (release_channel s)\<lparr>status := Error, console := console (release_channel s) @ [e']\<rparr>,
             snd (call_opt (onError cb) e' w)))
   \<and> fst (step cb Disconnect sw) = None
   \<and> fst (step cb (Reconnect d') sw) = None
   \<and> fst (step cb Unmount sw) = None"
  by (auto simp: connect_def Let_def split: option.splits prod.splits)

theorem connect_throws_only_from_onError_witness:
  "fst (connect requests (error_throws :: (nat, nat call list) callbacks)
        (Some (JsError ''backend unreachable'')) (initial, [])) \<noteq> None
   \<and> fst (call_opt (onError (error_throws :: (nat, nat call list) callbacks))
        (JsError ''backend unreachable'') [])
      = fst (connect requests (error_throws :: (nat, nat call list) callbacks)
        (Some (JsError ''backend unreachable'')) (initial, []))
   \<and> enabled requests
   \<and> fst (call_opt (onError (recording :: (nat, nat call list) callbacks))
        (JsError ''backend unreachable'') []) = None
   \<and> connect requests (recording :: (nat, nat call list) callbacks)
        (Some (JsError ''backend unreachable'')) (initial, [])
      = (None, initial\<lparr>status := Error, console := [JsError ''backend unreachable'']\<rparr>,
         [Error_call (JsError ''backend unreachable'')])"
proof -
  have h1: "fst (connect requests (error_throws :: (nat, nat call list) callbacks)
        (Some (JsError ''backend unreachable'')) (initial, [])) \<noteq> None"
    by (simp add: connect_def requests_def error_throws_def recording_def call_opt_def)
  have h2: "enabled requests
     \<and> fst (call_opt (onError (recording :: (nat, nat call list) callbacks))
        (JsError ''backend unreachable'') []) = None"
    by (simp add: requests_def recording_def call_opt_def)
  have a: "fst (call_opt (onError (error_throws :: (nat, nat call list) callbacks))
        (JsError ''backend unreachable'') [])
      = fst (connect requests (error_throws :: (nat, nat call list) callbacks)
        (Some (JsError ''backend unreachable'')) (initial, []))"
    using connect_throws_only_from_onError [where d = requests
      and cb = "error_throws :: (nat, nat call list) callbacks"
      and thrown = "Some (JsError ''backend unreachable'')" and s = initial and w = "[]"] h1
    by simp
  have b: "connect requests (recording :: (nat, nat call list) callbacks)
        (Some (JsError ''backend unreachable'')) (initial, [])
      = (None,
         (release_channel initial)\<lparr>status := Error,
            console := console (release_channel initial) @ [JsError ''backend unreachable'']\<rparr>,
         snd (call_opt (onError (recording :: (nat, nat call list) callbacks))
            (JsError ''backend unreachable'') []))"
    using connect_throws_only_from_onError [where d = requests
      and cb = "recording :: (nat, nat call list) callbacks"
      and e' = "JsError ''backend unreachable''" and s = initial and w = "[]"] h2
    by blast
  show ?thesis using h1 h2 a b
    by (simp add: recording_def call_opt_def release_channel_def initial_def)
qed

text \<open>
  C8 as stated fails. The client throws while the channel is built and the consumer's
  \<^verbatim>\<open>onError\<close> throws: the second exception leaves \<^verbatim>\<open>connect\<close>.
\<close>

theorem connect_throws_when_onError_throws:
  "connect requests (error_throws :: (nat, nat call list) callbacks)
       (Some (JsError ''backend unreachable'')) (initial, [])
     = (Some (JsError ''onError failed''), initial\<lparr>status := Error\<rparr>,
        [Error_call (JsError ''backend unreachable'')])"
  by (simp add: connect_def requests_def error_throws_def recording_def call_opt_def
      release_channel_def initial_def)

subsection \<open>Calling connect while a handle is held\<close>




subsection \<open>After a manual disconnect\<close>







text \<open>
  \<^verbatim>\<open>reconnect\<close> of the plain WebSocket hook resets the two flags and then calls
  \<^verbatim>\<open>disconnect\<close>, which sets them again: the flag is set after \<^verbatim>\<open>reconnect\<close> as well.
\<close>

lemma ws_reconnect_keeps_flag:
  "isManualCloseRef (ws_reconnect opts s) \<and> \<not> shouldReconnectRef (ws_reconnect opts s)
   \<and> ws_reconnectAttemptsRef (ws_reconnect opts s) = 0"
  by (simp add: ws_reconnect_def ws_disconnect_def Let_def close_socket_def split: option.splits)




subsection \<open>Retry timers the hook has lost track of\<close>

text \<open>
  What \<^verbatim>\<open>reconnect\<close> and the \<^verbatim>\<open>enabled\<close> flag do in every state: the timer in the ref is
  cancelled, the counter reset and the 100 ms task queued before any attempt is made; a
  \<^verbatim>\<open>connect\<close> closure made while \<^verbatim>\<open>enabled\<close> was false only sets the status; a render that
  turns \<^verbatim>\<open>enabled\<close> off disconnects, one that turns it on disconnects and connects.
\<close>

lemma reconnect_effect:
  "reconnectTimeoutRef (reconnect d s) = None
   \<and> reconnectAttemptsRef (reconnect d s) = 0
   \<and> channelRef (reconnect d s) = None
   \<and> status (reconnect d s) = Disconnected
   \<and> timeouts (reconnect d s)
       = (case reconnectTimeoutRef s of None \<Rightarrow> timeouts s
          | Some t \<Rightarrow> filter (\<lambda>x. fst x \<noteq> t) (timeouts s)) @ [(next_timeout s, 100, d)]"
  by (simp add: reconnect_def disconnect_def Let_def release_channel_def removeChannel_def
      clearTimeout_def setTimeout_def split: option.splits)

lemma connect_disabled:
  "\<not> enabled d \<Longrightarrow> connect d cb thrown (s, w) = (None, s\<lparr>status := Disconnected\<rparr>, w)"
  by (simp add: connect_def)

lemma rerender_disabled:
  "\<not> enabled d \<Longrightarrow> rerender d cb thrown (s, w) = (None, disconnect (disconnect s), w)"
  by (simp add: rerender_def effect_def cleanup_def)

lemma rerender_enabled:
  "enabled d \<Longrightarrow> rerender d cb thrown (s, w) = connect d cb thrown (disconnect s, w)"
  by (simp add: rerender_def effect_def cleanup_def)

text \<open>
  C6 on the failing input. Two failures are reported before the first retry timer comes
  due; the second overwrites \<^verbatim>\<open>reconnectTimeoutRef\<close> without clearing the first timer.
  \<^verbatim>\<open>reconnect\<close> then clears only the timer in the ref: timer 1 (3000 ms) is still pending
  beside the 100 ms task of \<^verbatim>\<open>reconnect\<close>, and when it comes due it tears down the
  subscription \<^verbatim>\<open>reconnect\<close> made and subscribes again.
\<close>

theorem reconnect_misses_untracked_retry:
  "timeouts (fst (run (recording :: (nat, nat call list) callbacks)
       [Mount requests None, Status requests CHANNEL_ERROR None, Status requests TIMED_OUT None,
        Reconnect requests] (initial, [])))
     = [(1, 3000, requests), (3, 100, requests)]
   \<and> ops (fst (run (recording :: (nat, nat call list) callbacks)
       [Mount requests None, Status requests CHANNEL_ERROR None, Status requests TIMED_OUT None,
        Reconnect requests, Timeout 3 None, Timeout 1 None] (initial, [])))
     = [Subscribe 0 requests, RemoveChannel 0, Subscribe 1 requests, RemoveChannel 1,
        Subscribe 2 requests]"
  by code_simp

text \<open>
  C9 on the failing input. After the same two failures the descriptor changes to
  \<^verbatim>\<open>enabled = false\<close>. Cleanup and effect both run \<^verbatim>\<open>disconnect\<close>, which clears only the
  timer in the ref: timer 1 is still pending, and when it comes due the \<^verbatim>\<open>connect\<close>
  closure it holds, made while \<^verbatim>\<open>enabled\<close> was true, subscribes a new channel.
\<close>

theorem disable_misses_untracked_retry:
  "timeouts (fst (run (recording :: (nat, nat call list) callbacks)
       [Mount requests None, Status requests CHANNEL_ERROR None, Status requests TIMED_OUT None,
        Render (requests\<lparr>enabled := False\<rparr>) None] (initial, [])))
     = [(1, 3000, requests)]
   \<and> channelRef (fst (run (recording :: (nat, nat call list) callbacks)
       [Mount requests None, Status requests CHANNEL_ERROR None, Status requests TIMED_OUT None,
        Render (requests\<lparr>enabled := False\<rparr>) None, Timeout 1 None] (initial, []))) = Some 1
   \<and> status (fst (run (recording :: (nat, nat call list) callbacks)
       [Mount requests None, Status requests CHANNEL_ERROR None, Status requests TIMED_OUT None,
        Render (requests\<lparr>enabled := False\<rparr>) None, Timeout 1 None] (initial, []))) = Connecting"
  by code_simp

subsection \<open>Confirmed closed by the backend\<close>



end
